theory Spec2Isabelle
  imports Main "HOL-Library.Word"
begin

section \<open>Data model of the file inode (package inode, file.go)\<close>

text \<open>
  Instants (Go's \<open>time.Time\<close>) are integers on one time line, ordered by \<open>\<le>\<close>;
  \<open>time.Duration\<close> is an integer number of the same unit. Go's \<open>int64\<close> and \<open>uint64\<close>
  are \<open>64 word\<close>: a conversion between the two keeps the bits, a signed comparison reads
  the word with \<open>sint\<close>.
\<close>

type_synonym time = int
type_synonym byte = "8 word"

text \<open>
  Errors as values. \<open>NotFoundError\<close> and \<open>PreconditionError\<close> are the typed errors of
  package gcs, \<open>Wrapped p e\<close> is \<open>fmt.Errorf(p + "%w", e)\<close>, \<open>FileClobberedError\<close> is the
  struct of package gcsfuse_errors with its \<open>Err\<close> field (which Sync sets to nil when the
  stat reveals the clobber), \<open>OtherError\<close> is any other leaf error, and \<open>Panic\<close> stands
  for a run-time panic of the Go code (a method call on a nil interface).
\<close>

datatype err =
    NotFoundError
  | PreconditionError
  | OtherError string
  | Wrapped string err
  | FileClobberedError "err option"
  | EOF
  | Panic string

text \<open>
  \<open>errors.As(err, &notFoundErr)\<close> and \<open>errors.As(err, &preconditionErr)\<close>: the chain of
  \<open>Unwrap\<close> is followed through \<open>%w\<close> wrappers and through \<open>FileClobberedError.Err\<close>.
\<close>

fun As_NotFoundError :: "err \<Rightarrow> bool" where
  "As_NotFoundError NotFoundError = True"
| "As_NotFoundError (Wrapped p e) = As_NotFoundError e"
| "As_NotFoundError (FileClobberedError (Some e)) = As_NotFoundError e"
| "As_NotFoundError _ = False"

fun As_PreconditionError :: "err \<Rightarrow> bool" where
  "As_PreconditionError PreconditionError = True"
| "As_PreconditionError (Wrapped p e) = As_PreconditionError e"
| "As_PreconditionError (FileClobberedError (Some e)) = As_PreconditionError e"
| "As_PreconditionError _ = False"

subsection \<open>Objects of the bucket\<close>

text \<open>
  Modelled from the spec: \<open>gcs.MinObject\<close> and \<open>gcs.Object\<close> (package gcs) are not part of
  the sources at hand. The source record is "a minimal projection of the remote object
  carrying name, generation, meta_generation, size, updated_time, metadata,
  has_gzip_content_encoding"; the full object carries the extended attributes as well.
\<close>

record min_object =
  Name :: string
  Size :: "64 word"
  Generation :: "64 word"
  MetaGeneration :: "64 word"
  Updated :: time
  Metadata :: "string \<rightharpoonup> string"
  ContentEncoding :: string

record extended_object_attributes =
  ContentType :: string
  Owner :: string
  Acl :: "string list"

record gcs_object = min_object +
  Extended :: "extended_object_attributes option"

text \<open>The zero value of \<open>gcs.MinObject\<close> (\<open>var minObj gcs.MinObject\<close>).\<close>

definition zero_min_object :: min_object where
  "zero_min_object =
     \<lparr>Name = [], Size = 0, Generation = 0, MetaGeneration = 0, Updated = 0,
      Metadata = Map.empty, ContentEncoding = []\<rparr>"

text \<open>
  Modelled from the spec: the conversions of package storageutil are not part of the
  sources at hand. They project an object to its minimal record and back; a nil pointer
  is mapped to a nil pointer.
\<close>

definition ConvertObjToMinObject :: "gcs_object option \<Rightarrow> min_object option" where
  "ConvertObjToMinObject o' =
     (case o' of
        None \<Rightarrow> None
      | Some ob \<Rightarrow>
          Some \<lparr>Name = Name ob, Size = Size ob, Generation = Generation ob,
                MetaGeneration = MetaGeneration ob, Updated = Updated ob,
                Metadata = Metadata ob, ContentEncoding = ContentEncoding ob\<rparr>)"

definition ConvertMinObjectToObject :: "min_object option \<Rightarrow> gcs_object option" where
  "ConvertMinObjectToObject m' =
     (case m' of
        None \<Rightarrow> None
      | Some m \<Rightarrow>
          Some \<lparr>Name = Name m, Size = Size m, Generation = Generation m,
                MetaGeneration = MetaGeneration m, Updated = Updated m,
                Metadata = Metadata m, ContentEncoding = ContentEncoding m,
                Extended = None\<rparr>)"

definition ConvertMinObjectAndExtendedObjectAttributesToObject ::
    "min_object option \<Rightarrow> extended_object_attributes option \<Rightarrow> gcs_object option" where
  "ConvertMinObjectAndExtendedObjectAttributesToObject m' e' =
     (case m' of
        None \<Rightarrow> None
      | Some m \<Rightarrow>
          Some \<lparr>Name = Name m, Size = Size m, Generation = Generation m,
                MetaGeneration = MetaGeneration m, Updated = Updated m,
                Metadata = Metadata m, ContentEncoding = ContentEncoding m,
                Extended = e'\<rparr>)"

definition HasContentEncodingGzip :: "min_object \<Rightarrow> bool" where
  "HasContentEncodingGzip m = (ContentEncoding m = ''gzip'')"

subsection \<open>Generations\<close>

text \<open>
  Modelled from the spec: \<open>Generation\<close> and its \<open>Compare\<close> (package inode) are not part of
  the sources at hand. A generation is the "pair (object, meta) with total order
  a < b iff a.object < b.object or (a.object == b.object and a.meta < b.meta)";
  \<open>Compare\<close> returns -1, 0 or 1.
\<close>

record generation =
  gen_Object :: "64 word"
  gen_Metadata :: "64 word"

definition Compare :: "generation \<Rightarrow> generation \<Rightarrow> int" where
  "Compare g other =
     (if sint (gen_Object g) < sint (gen_Object other) then -1
      else if sint (gen_Object g) > sint (gen_Object other) then 1
      else if sint (gen_Metadata g) < sint (gen_Metadata other) then -1
      else if sint (gen_Metadata g) > sint (gen_Metadata other) then 1
      else 0)"

subsection \<open>Scratch content\<close>

text \<open>
  Modelled from the spec: \<open>gcsx.TempFile\<close> and \<open>gcsx.StatResult\<close> are not part of the
  sources at hand. The scratch content is "a randomly addressable byte log" with
  \<open>read_at\<close>, \<open>write_at\<close>, \<open>truncate\<close>, \<open>stat\<close> returning the size and the optional dirty
  mtime, \<open>set_mtime\<close> and \<open>destroy\<close>; it is dirty iff a mutation has occurred since
  materialization, and the dirty mtime is present iff it is dirty. \<open>tf_clock\<close> is the
  reading of the scratch's clock at its next mutation, \<open>tf_fault\<close> a failure of the
  backing file that every operation on it reports.
\<close>

record temp_file =
  tf_contents :: "byte list"
  tf_mtime :: "time option"
  tf_clock :: time
  tf_fault :: "err option"
  tf_destroyed :: bool

record stat_result =
  sr_Size :: "64 word"
  sr_Mtime :: "time option"

definition zero_stat_result :: stat_result where
  "zero_stat_result = \<lparr>sr_Size = 0, sr_Mtime = None\<rparr>"

definition tf_Stat :: "temp_file \<Rightarrow> err + stat_result" where
  "tf_Stat tf =
     (case tf_fault tf of
        Some e \<Rightarrow> Inl e
      | None \<Rightarrow> Inr \<lparr>sr_Size = of_nat (length (tf_contents tf)), sr_Mtime = tf_mtime tf\<rparr>)"

definition tf_SetMtime :: "time \<Rightarrow> temp_file \<Rightarrow> temp_file" where
  "tf_SetMtime t tf = tf\<lparr>tf_mtime := Some t\<rparr>"

definition tf_Destroy :: "temp_file \<Rightarrow> temp_file" where
  "tf_Destroy tf = tf\<lparr>tf_destroyed := True\<rparr>"

text \<open>\<open>ReadAt(dst, offset)\<close>: the bytes read, and \<open>io.EOF\<close> on a short read.\<close>

definition tf_ReadAt :: "nat \<Rightarrow> nat \<Rightarrow> temp_file \<Rightarrow> byte list \<times> err option" where
  "tf_ReadAt n offset tf =
     (case tf_fault tf of
        Some e \<Rightarrow> ([], Some e)
      | None \<Rightarrow>
          (let bs = take n (drop offset (tf_contents tf))
           in (bs, if length bs < n then Some EOF else None)))"

text \<open>\<open>WriteAt(src, offset)\<close>: a hole before the offset reads as zero.\<close>

definition tf_WriteAt :: "byte list \<Rightarrow> nat \<Rightarrow> temp_file \<Rightarrow> err option \<times> temp_file" where
  "tf_WriteAt data offset tf =
     (case tf_fault tf of
        Some e \<Rightarrow> (Some e, tf)
      | None \<Rightarrow>
          (let old = tf_contents tf;
               padded = old @ replicate (offset - length old) 0
           in (None,
               tf\<lparr>tf_contents := take offset padded @ data @ drop (offset + length data) padded,
                  tf_mtime := Some (tf_clock tf)\<rparr>)))"

definition tf_Truncate :: "nat \<Rightarrow> temp_file \<Rightarrow> err option \<times> temp_file" where
  "tf_Truncate n tf =
     (case tf_fault tf of
        Some e \<Rightarrow> (Some e, tf)
      | None \<Rightarrow>
          (let old = tf_contents tf
           in (None,
               tf\<lparr>tf_contents := take n old @ replicate (n - length old) 0,
                  tf_mtime := Some (tf_clock tf)\<rparr>)))"

subsection \<open>Buffered write handler\<close>

text \<open>
  Modelled from the spec: \<open>bufferedwrites.BufferedWriteHandler\<close> is not part of the
  sources at hand. It is "a streaming sink: write(buf, offset), set_mtime(t),
  write_file_info returning total_size and mtime"; the offsets of the writes "must form a
  contiguous sequence starting at 0; non-contiguous writes fail with OutOfOrderWrite";
  after a failure every write "fails fast with UploadFailed".
\<close>

record buffered_write_handler =
  bwh_written :: "byte list"
  bwh_mtime :: time
  bwh_failed :: bool

record write_file_info =
  TotalSize :: "64 word"
  wfi_Mtime :: time

definition bwh_WriteFileInfo :: "buffered_write_handler \<Rightarrow> write_file_info" where
  "bwh_WriteFileInfo b = \<lparr>TotalSize = of_nat (length (bwh_written b)), wfi_Mtime = bwh_mtime b\<rparr>"

definition bwh_SetMtime :: "time \<Rightarrow> buffered_write_handler \<Rightarrow> buffered_write_handler" where
  "bwh_SetMtime t b = b\<lparr>bwh_mtime := t\<rparr>"

definition bwh_Write ::
    "byte list \<Rightarrow> nat \<Rightarrow> buffered_write_handler \<Rightarrow> err option \<times> buffered_write_handler" where
  "bwh_Write data offset b =
     (if bwh_failed b then (Some (OtherError ''UploadFailed''), b)
      else if offset \<noteq> length (bwh_written b)
        then (Some (OtherError ''OutOfOrderWrite''), b\<lparr>bwh_failed := True\<rparr>)
      else (None, b\<lparr>bwh_written := bwh_written b @ data\<rparr>))"

subsection \<open>The inode\<close>

text \<open>
  Modelled from the spec: \<open>Name\<close> (package inode), \<open>fuseops.InodeAttributes\<close> and
  \<open>cfg.WriteConfig\<close> are not part of the sources at hand; they are records of the fields
  file.go reads. \<open>GcsObjectName\<close> is the object-store key of a name.
\<close>

record inode_name =
  bucketName :: string
  objectName :: string

definition GcsObjectName :: "inode_name \<Rightarrow> string" where
  "GcsObjectName n = objectName n"

record inode_attributes =
  attrs_Size :: "64 word"
  Nlink :: "32 word"
  Mode :: "32 word"
  Atime :: time
  Mtime :: time
  Ctime :: time
  Crtime :: time
  Uid :: "32 word"
  Gid :: "32 word"

record write_config =
  ExperimentalEnableStreamingWrites :: bool
  BlockSizeMb :: "64 word"
  MaxBlocksPerFile :: "64 word"

text \<open>
  The struct \<open>FileInode\<close>. The pointers \<open>content\<close> and \<open>bwh\<close> are options holding the value
  they point to; the dependencies (\<open>bucket\<close>, \<open>mtimeClock\<close>, \<open>contentCache\<close>,
  \<open>globalMaxBlocksSem\<close>) are the environment below.
\<close>

record file_inode =
  inode_id :: "64 word"
  name :: inode_name
  attrs :: inode_attributes
  localFileCache :: bool
  lc :: "64 word"
  src :: min_object
  content :: "temp_file option"
  destroyed :: bool
  local :: bool
  unlinked :: bool
  bwh :: "buffered_write_handler option"
  writeConfig :: write_config

subsection \<open>The environment of one operation\<close>

text \<open>
  What the collaborators answer during one operation of the inode: the bucket
  (\<open>gcsx.SyncerBucket\<close>), the content cache, the constructor of the buffered write
  handler, the clock, and the two parsers of Go's standard library that Attributes calls.
  A successful \<open>StatObject\<close> returns a record; \<open>UpdateObject\<close> and \<open>SyncObject\<close> may
  return a nil object with a nil error.
\<close>

record stat_object_request =
  so_Name :: string
  ForceFetchFromGcs :: bool
  ReturnExtendedObjectAttributes :: bool

record read_object_request =
  ro_Name :: string
  ro_Generation :: "64 word"
  ReadCompressed :: bool

record update_object_request =
  uo_Name :: string
  uo_Generation :: "64 word"
  MetaGenerationPrecondition :: "64 word"
  uo_Metadata :: "string \<rightharpoonup> string"

record cache_object_key =
  BucketName :: string
  ObjectName :: string

record cache_object =
  co_Generation :: "64 word"
  co_MetaGeneration :: "64 word"
  CacheFile :: temp_file

definition ValidateGeneration :: "cache_object \<Rightarrow> 64 word \<Rightarrow> 64 word \<Rightarrow> bool" where
  "ValidateGeneration c g mg = (co_Generation c = g \<and> co_MetaGeneration c = mg)"

record env =
  bucket_Name :: string
  StatObject ::
    "stat_object_request \<Rightarrow> err + (min_object \<times> extended_object_attributes option)"
  NewReader :: "read_object_request \<Rightarrow> err + byte list"
  UpdateObject :: "update_object_request \<Rightarrow> err + gcs_object option"
  SyncObject :: "string \<Rightarrow> gcs_object option \<Rightarrow> temp_file \<Rightarrow> err + gcs_object option"
  cache_Get :: "cache_object_key \<Rightarrow> cache_object option"
  cache_AddOrReplace ::
    "cache_object_key \<Rightarrow> 64 word \<Rightarrow> 64 word \<Rightarrow> byte list \<Rightarrow> err + cache_object"
  NewTempFile :: "byte list \<Rightarrow> err + temp_file"
  NewBWHandler :: "string \<Rightarrow> 64 word \<Rightarrow> 64 word \<Rightarrow> err + buffered_write_handler"
  Now :: time
  ParseInt :: "string \<Rightarrow> 64 word option"
  time_Unix :: "64 word \<Rightarrow> time"
  time_Parse :: "string \<Rightarrow> err + time"
  Format_RFC3339Nano :: "time \<Rightarrow> string"

section \<open>Operations of the file inode\<close>

definition NewFileInode ::
    "64 word \<Rightarrow> inode_name \<Rightarrow> min_object option \<Rightarrow> inode_attributes \<Rightarrow> bool \<Rightarrow> bool \<Rightarrow>
     write_config \<Rightarrow> file_inode" where
  "NewFileInode i n m a localFileCache' localFile wc =
     \<lparr>inode_id = i, name = n, attrs = a, localFileCache = localFileCache', lc = 0,
      src = (case m of None \<Rightarrow> zero_min_object | Some mo \<Rightarrow> mo),
      content = None, destroyed = False, local = localFile, unlinked = False,
      bwh = None, writeConfig = wc\<rparr>"

definition IsLocal :: "file_inode \<Rightarrow> bool" where
  "IsLocal f = local f"

definition IsUnlinked :: "file_inode \<Rightarrow> bool" where
  "IsUnlinked f = unlinked f"

definition Unlink :: "file_inode \<Rightarrow> file_inode" where
  "Unlink f = f\<lparr>unlinked := True\<rparr>"

definition Source :: "file_inode \<Rightarrow> min_object" where
  "Source f = src f"

definition SourceGenerationIsAuthoritative :: "file_inode \<Rightarrow> bool" where
  "SourceGenerationIsAuthoritative f = (content f = None \<and> bwh f = None)"

definition SourceGeneration :: "file_inode \<Rightarrow> generation" where
  "SourceGeneration f =
     \<lparr>gen_Object = Generation (src f), gen_Metadata = MetaGeneration (src f)\<rparr>"

text \<open>
  \<open>clobbered\<close> returns the object of the stat, the verdict and the error. The object is
  nil when the stat fails.
\<close>

definition clobbered ::
    "env \<Rightarrow> file_inode \<Rightarrow> bool \<Rightarrow> bool \<Rightarrow> gcs_object option \<times> bool \<times> err option" where
  "clobbered E f forceFetchFromGcs includeExtendedObjectAttributes =
     (let req = \<lparr>so_Name = GcsObjectName (name f),
                 ForceFetchFromGcs = forceFetchFromGcs,
                 ReturnExtendedObjectAttributes = includeExtendedObjectAttributes\<rparr>
      in case StatObject E req of
           Inl e \<Rightarrow>
             if As_NotFoundError e then
               (if IsLocal f then (None, False, None) else (None, True, None))
             else (None, False, Some (Wrapped ''StatObject: '' e))
         | Inr (m, e) \<Rightarrow>
             (case (if includeExtendedObjectAttributes
                    then ConvertMinObjectAndExtendedObjectAttributesToObject (Some m) e
                    else ConvertMinObjectToObject (Some m)) of
                None \<Rightarrow> (None, False, Some (Panic ''nil pointer dereference''))
              | Some ob \<Rightarrow>
                  (let oGen = \<lparr>gen_Object = Generation ob, gen_Metadata = MetaGeneration ob\<rparr>
                   in (Some ob, Compare (SourceGeneration f) oGen \<noteq> 0, None))))"

text \<open>
  \<open>openReader\<close>: a reader pinned to the source generation, here the bytes it delivers.
  A NotFound of the bucket becomes a \<open>FileClobberedError\<close>, and every error is wrapped.
\<close>

definition openReader :: "env \<Rightarrow> file_inode \<Rightarrow> err + byte list" where
  "openReader E f =
     (case NewReader E \<lparr>ro_Name = Name (src f), ro_Generation = Generation (src f),
                        ReadCompressed = HasContentEncodingGzip (src f)\<rparr> of
        Inr rc \<Rightarrow> Inr rc
      | Inl e \<Rightarrow>
          (let e' = (if As_NotFoundError e
                     then FileClobberedError (Some (Wrapped ''NewReader: '' e)) else e)
           in Inl (Wrapped ''NewReader: '' e')))"

definition ensureContent :: "env \<Rightarrow> file_inode \<Rightarrow> err option \<times> file_inode" where
  "ensureContent E f =
     (if localFileCache f then
        (let cacheObjectKey = \<lparr>BucketName = bucket_Name E, ObjectName = objectName (name f)\<rparr>;
             hit = (case cache_Get E cacheObjectKey of
                      None \<Rightarrow> None
                    | Some cacheObject \<Rightarrow>
                        if ValidateGeneration cacheObject
                             (Generation (src f)) (MetaGeneration (src f))
                        then Some cacheObject else None)
         in case hit of
              Some cacheObject \<Rightarrow> (None, f\<lparr>content := Some (CacheFile cacheObject)\<rparr>)
            | None \<Rightarrow>
                (case openReader E f of
                   Inl e \<Rightarrow> (Some (Wrapped ''openReader Error: '' e), f)
                 | Inr rc \<Rightarrow>
                     (case cache_AddOrReplace E cacheObjectKey
                             (Generation (src f)) (MetaGeneration (src f)) rc of
                        Inl e \<Rightarrow> (Some (Wrapped ''AddOrReplace cache error: '' e), f)
                      | Inr tf \<Rightarrow> (None, f\<lparr>content := Some (CacheFile tf)\<rparr>))))
      else if content f \<noteq> None then (None, f)
      else
        (case openReader E f of
           Inl e \<Rightarrow> (Some (Wrapped ''openReader Error: '' e), f)
         | Inr rc \<Rightarrow>
             (case NewTempFile E rc of
                Inl e \<Rightarrow> (Some (Wrapped ''NewTempFile: '' e), f)
              | Inr tf \<Rightarrow> (None, f\<lparr>content := Some tf\<rparr>))))"

text \<open>
  \<open>Destroy\<close>: with the content cache the entry of the cache is removed (an effect on the
  cache, outside the inode); otherwise the scratch is destroyed. The field \<open>content\<close>
  keeps pointing to it.
\<close>

definition Destroy :: "file_inode \<Rightarrow> err option \<times> file_inode" where
  "Destroy f =
     (let f1 = f\<lparr>destroyed := True\<rparr>
      in if localFileCache f1 then (None, f1)
         else (case content f1 of
                 Some c \<Rightarrow> (None, f1\<lparr>content := Some (tf_Destroy c)\<rparr>)
               | None \<Rightarrow> (None, f1)))"

text \<open>
  \<open>Attributes\<close>. The prefix of the \<open>time.Parse\<close> error carries the formatted string
  (without the quoting of \<open>%q\<close>).
\<close>

definition Attributes :: "env \<Rightarrow> file_inode \<Rightarrow> err + inode_attributes" where
  "Attributes E f =
     (let a0 = (attrs f)\<lparr>Mtime := Updated (src f), attrs_Size := Size (src f)\<rparr>;
          a1 = (case Metadata (src f) ''goog-reserved-file-mtime'' of
                  None \<Rightarrow> a0
                | Some strTimestamp \<Rightarrow>
                    (case ParseInt E strTimestamp of
                       None \<Rightarrow> a0
                     | Some timestamp \<Rightarrow> a0\<lparr>Mtime := time_Unix E timestamp\<rparr>))
      in case (case Metadata (src f) ''gcsfuse_mtime'' of
                 None \<Rightarrow> Inr a1
               | Some formatted \<Rightarrow>
                   (case time_Parse E formatted of
                      Inl e \<Rightarrow> Inl (Wrapped (''time.Parse('' @ formatted @ ''): '') e)
                    | Inr t \<Rightarrow> Inr (a1\<lparr>Mtime := t\<rparr>))) of
           Inl e \<Rightarrow> Inl e
         | Inr a2 \<Rightarrow>
             (case (case content f of
                      None \<Rightarrow> Inr a2
                    | Some c \<Rightarrow>
                        (case tf_Stat c of
                           Inl e \<Rightarrow> Inl (Wrapped ''stat: '' e)
                         | Inr sr \<Rightarrow>
                             (let a = a2\<lparr>attrs_Size := sr_Size sr\<rparr>
                              in case sr_Mtime sr of
                                   None \<Rightarrow> Inr a
                                 | Some t \<Rightarrow> Inr (a\<lparr>Mtime := t\<rparr>)))) of
                Inl e \<Rightarrow> Inl e
              | Inr a3 \<Rightarrow>
                  (let a4 = (case bwh f of
                               None \<Rightarrow> a3
                             | Some b \<Rightarrow>
                                 (let writeFileInfo = bwh_WriteFileInfo b
                                  in a3\<lparr>Mtime := wfi_Mtime writeFileInfo,
                                        attrs_Size := TotalSize writeFileInfo\<rparr>));
                       a5 = a4\<lparr>Atime := Mtime a4, Ctime := Mtime a4\<rparr>
                   in case clobbered E f False False of
                        (_, _, Some e) \<Rightarrow> Inl (Wrapped ''clobbered: '' e)
                      | (_, clob, None) \<Rightarrow>
                          Inr (a5\<lparr>Nlink := (if clob \<or> (IsLocal f \<and> IsUnlinked f)
                                              then 0 else 1)\<rparr>))))"

text \<open>
  \<open>Read\<close>: the bytes read (\<open>dst[:n]\<close>), the error and the inode afterwards. Offsets,
  lengths and sizes are naturals: the kernel passes none that is negative.
\<close>

definition Read ::
    "env \<Rightarrow> file_inode \<Rightarrow> nat \<Rightarrow> nat \<Rightarrow> (byte list \<times> err option) \<times> file_inode" where
  "Read E f len offset =
     (if bwh f \<noteq> None
      then (([], Some (OtherError ''cannot read a file when upload in progress'')), f)
      else
        (case ensureContent E f of
           (Some e, f1) \<Rightarrow> (([], Some (Wrapped ''ensureContent: '' e)), f1)
         | (None, f1) \<Rightarrow>
             (case content f1 of
                None \<Rightarrow> (([], Some (Panic ''nil content'')), f1)
              | Some c \<Rightarrow>
                  (case tf_ReadAt len offset c of
                     (bs, Some EOF) \<Rightarrow> ((bs, Some EOF), f1)
                   | (bs, Some e) \<Rightarrow> ((bs, Some (Wrapped ''content.ReadAt: '' e)), f1)
                   | (bs, None) \<Rightarrow> ((bs, None), f1)))))"

definition ensureBufferedWriteHandler :: "env \<Rightarrow> file_inode \<Rightarrow> err option \<times> file_inode" where
  "ensureBufferedWriteHandler E f =
     (case bwh f of
        None \<Rightarrow>
          (case NewBWHandler E (GcsObjectName (name f)) (BlockSizeMb (writeConfig f))
                  (MaxBlocksPerFile (writeConfig f)) of
             Inl e \<Rightarrow> (Some (Wrapped ''failed to create bufferedWriteHandler: '' e), f)
           | Inr b \<Rightarrow> (None, f\<lparr>bwh := Some (bwh_SetMtime (Now E) b)\<rparr>))
      | Some _ \<Rightarrow> (None, f))"

definition Write ::
    "env \<Rightarrow> file_inode \<Rightarrow> byte list \<Rightarrow> nat \<Rightarrow> err option \<times> file_inode" where
  "Write E f data offset =
     (case (if Size (src f) = 0 \<and> ExperimentalEnableStreamingWrites (writeConfig f)
            then ensureBufferedWriteHandler E f else (None, f)) of
        (Some e, f1) \<Rightarrow> (Some e, f1)
      | (None, f1) \<Rightarrow>
          (case bwh f1 of
             Some b \<Rightarrow>
               (case bwh_Write data offset b of (e, b') \<Rightarrow> (e, f1\<lparr>bwh := Some b'\<rparr>))
           | None \<Rightarrow>
               (case ensureContent E f1 of
                  (Some e, f2) \<Rightarrow> (Some (Wrapped ''ensureContent: '' e), f2)
                | (None, f2) \<Rightarrow>
                    (case content f2 of
                       None \<Rightarrow> (Some (Panic ''nil content''), f2)
                     | Some c \<Rightarrow>
                         (case tf_WriteAt data offset c of
                            (e, c') \<Rightarrow> (e, f2\<lparr>content := Some c'\<rparr>))))))"

definition FileMtimeMetadataKey :: string where
  "FileMtimeMetadataKey = ''gcsfuse_mtime''"

definition SetMtime :: "env \<Rightarrow> file_inode \<Rightarrow> time \<Rightarrow> err option \<times> file_inode" where
  "SetMtime E f mtime =
     (case bwh f of
        Some b \<Rightarrow> (None, f\<lparr>bwh := Some (bwh_SetMtime mtime b)\<rparr>)
      | None \<Rightarrow>
          (case (case content f of
                   None \<Rightarrow> Inr zero_stat_result
                 | Some c \<Rightarrow> tf_Stat c) of
             Inl e \<Rightarrow> (Some (Wrapped ''stat: '' e), f)
           | Inr sr \<Rightarrow>
               if sr_Mtime sr \<noteq> None \<or> IsLocal f then
                 (case content f of
                    None \<Rightarrow> (Some (Panic ''nil content''), f)
                  | Some c \<Rightarrow> (None, f\<lparr>content := Some (tf_SetMtime mtime c)\<rparr>))
               else
                 (let formatted = Format_RFC3339Nano E mtime;
                      srcGen = SourceGeneration f;
                      req = \<lparr>uo_Name = Name (src f),
                             uo_Generation = gen_Object srcGen,
                             MetaGenerationPrecondition = gen_Metadata srcGen,
                             uo_Metadata = [FileMtimeMetadataKey \<mapsto> formatted]\<rparr>
                  in case UpdateObject E req of
                       Inr ob \<Rightarrow>
                         (None, f\<lparr>src := (case ConvertObjToMinObject ob of
                                             None \<Rightarrow> zero_min_object
                                           | Some minObj \<Rightarrow> minObj)\<rparr>)
                     | Inl e \<Rightarrow>
                         if As_NotFoundError e then (None, f)
                         else if As_PreconditionError e then (None, f)
                         else (Some (Wrapped ''UpdateObject: '' e), f))))"

text \<open>
  \<open>Sync\<close> returns the error, the inode afterwards and the scratch it has called
  \<open>Destroy\<close> on, if any (the inode no longer points to it).
\<close>

definition Sync :: "env \<Rightarrow> file_inode \<Rightarrow> err option \<times> file_inode \<times> temp_file option" where
  "Sync E f =
     (case content f of
        None \<Rightarrow> (None, f, None)
      | Some c \<Rightarrow>
          (case clobbered E f True True of
             (latestGcsObj, isClobbered, err0) \<Rightarrow>
               (case (if isClobbered then Some (FileClobberedError err0) else err0) of
                  Some e \<Rightarrow> (Some e, f, None)
                | None \<Rightarrow>
                    (case SyncObject E (GcsObjectName (name f)) latestGcsObj c of
                       Inl e \<Rightarrow>
                         if As_PreconditionError e
                         then (Some (FileClobberedError (Some (Wrapped ''SyncObject: '' e))),
                               f, None)
                         else (Some (Wrapped ''SyncObject: '' e), f, None)
                     | Inr newObj \<Rightarrow>
                         if newObj \<noteq> None \<and> \<not> localFileCache f then
                           (None,
                            f\<lparr>src := (case ConvertObjToMinObject newObj of
                                        None \<Rightarrow> zero_min_object
                                      | Some minObj \<Rightarrow> minObj),
                              local := False,
                              content := None\<rparr>,
                            Some (tf_Destroy c))
                         else (None, f, None)))))"

definition Truncate :: "env \<Rightarrow> file_inode \<Rightarrow> nat \<Rightarrow> err option \<times> file_inode" where
  "Truncate E f size' =
     (case ensureContent E f of
        (Some e, f1) \<Rightarrow> (Some (Wrapped ''ensureContent: '' e), f1)
      | (None, f1) \<Rightarrow>
          (case content f1 of
             None \<Rightarrow> (Some (Panic ''nil content''), f1)
           | Some c \<Rightarrow>
               (case tf_Truncate size' c of (e, c') \<Rightarrow> (e, f1\<lparr>content := Some c'\<rparr>))))"

definition CacheEnsureContent :: "env \<Rightarrow> file_inode \<Rightarrow> err option \<times> file_inode" where
  "CacheEnsureContent E f = (if localFileCache f then ensureContent E f else (None, f))"

text \<open>
  \<open>CreateBufferedOrTempWriter\<close>. When \<open>NewTempFile\<close> fails the field \<open>content\<close> has been
  assigned nil and the call of \<open>SetMtime\<close> on it panics.
\<close>

definition CreateBufferedOrTempWriter :: "env \<Rightarrow> file_inode \<Rightarrow> err option \<times> file_inode" where
  "CreateBufferedOrTempWriter E f =
     (if local f \<and> ExperimentalEnableStreamingWrites (writeConfig f)
      then ensureBufferedWriteHandler E f
      else
        (case NewTempFile E [] of
           Inl e \<Rightarrow> (Some (Panic ''nil content''), f\<lparr>content := None\<rparr>)
         | Inr tf \<Rightarrow> (None, f\<lparr>content := Some (tf_SetMtime (Now E) tf)\<rparr>)))"

subsection \<open>Sequences of public operations\<close>

datatype op =
    OpRead nat nat
  | OpWrite "byte list" nat
  | OpTruncate nat
  | OpSetMtime time
  | OpSync
  | OpCreateBufferedOrTempWriter
  | OpDestroy

text \<open>The inode after one operation, whether it has failed or not.\<close>

fun step :: "env \<Rightarrow> op \<Rightarrow> file_inode \<Rightarrow> file_inode" where
  "step E (OpRead len offset) f = snd (Read E f len offset)"
| "step E (OpWrite data offset) f = snd (Write E f data offset)"
| "step E (OpTruncate n) f = snd (Truncate E f n)"
| "step E (OpSetMtime t) f = snd (SetMtime E f t)"
| "step E OpSync f = fst (snd (Sync E f))"
| "step E OpCreateBufferedOrTempWriter f = snd (CreateBufferedOrTempWriter E f)"
| "step E OpDestroy f = snd (Destroy f)"

text \<open>A run: each operation with the environment it meets.\<close>

fun run :: "(env \<times> op) list \<Rightarrow> file_inode \<Rightarrow> file_inode" where
  "run [] f = f"
| "run ((E, x) # xs) f = run xs (step E x f)"

section \<open>The specification's words, for comparison with the code\<close>

text \<open>
  The specification on Write: the write streams "if Pristine and (local or source.size==0)
  and streaming-writes configured"; Pristine is "neither scratch nor bwh".
\<close>

definition spec_write_streams :: "file_inode \<Rightarrow> bool" where
  "spec_write_streams f =
     ((content f = None \<and> bwh f = None) \<and> (local f \<or> Size (src f) = 0) \<and>
      ExperimentalEnableStreamingWrites (writeConfig f))"

text \<open>
  The specification on Attributes: the mtime starts from the \<open>updated\<close> time of the source
  record; the key \<open>goog-reserved-file-mtime\<close> overrides it "if present and parseable", the
  key \<open>gcsfuse_mtime\<close> overrides it if present (a malformed value is an error of
  Attributes, so that its value does not matter here).
\<close>

definition source_mtime :: "env \<Rightarrow> min_object \<Rightarrow> time" where
  "source_mtime E m =
     (case Metadata m ''gcsfuse_mtime'' of
        Some formatted \<Rightarrow> (case time_Parse E formatted of Inr t \<Rightarrow> t | Inl e \<Rightarrow> Updated m)
      | None \<Rightarrow>
          (case Metadata m ''goog-reserved-file-mtime'' of
             Some s \<Rightarrow> (case ParseInt E s of Some n \<Rightarrow> time_Unix E n | None \<Rightarrow> Updated m)
           | None \<Rightarrow> Updated m))"

section \<open>A concrete inode and environment\<close>

text \<open>
  An object \<open>obj\<close> at generation (7, 1) whose content is the given bytes, a bucket that
  answers every request successfully (a sync writes generation (8, 1), a metadata update
  writes (7, 2)), and the inode created for that object. Failing buckets are record
  updates of this environment.
\<close>

definition scenario_name :: inode_name where
  "scenario_name = \<lparr>bucketName = ''bucket'', objectName = ''obj''\<rparr>"

definition scenario_attrs :: inode_attributes where
  "scenario_attrs =
     \<lparr>attrs_Size = 0, Nlink = 0, Mode = 420, Atime = 0, Mtime = 0, Ctime = 0, Crtime = 0,
      Uid = 0, Gid = 0\<rparr>"

definition scenario_config :: "bool \<Rightarrow> write_config" where
  "scenario_config streaming =
     \<lparr>ExperimentalEnableStreamingWrites = streaming, BlockSizeMb = 1, MaxBlocksPerFile = 4\<rparr>"

definition scenario_source :: "byte list \<Rightarrow> min_object" where
  "scenario_source bs =
     \<lparr>Name = ''obj'', Size = of_nat (length bs), Generation = 7, MetaGeneration = 1, Updated = 1000,
      Metadata = Map.empty, ContentEncoding = []\<rparr>"

definition scenario_object :: "64 word \<Rightarrow> 64 word \<Rightarrow> gcs_object" where
  "scenario_object g mg =
     \<lparr>Name = ''obj'', Size = 2, Generation = g, MetaGeneration = mg, Updated = 2000,
      Metadata = Map.empty, ContentEncoding = [], Extended = None\<rparr>"

definition scenario_temp_file :: "byte list \<Rightarrow> temp_file" where
  "scenario_temp_file bs =
     \<lparr>tf_contents = bs, tf_mtime = None, tf_clock = 3000, tf_fault = None,
      tf_destroyed = False\<rparr>"

definition scenario_env :: "byte list \<Rightarrow> env" where
  "scenario_env bs =
     \<lparr>bucket_Name = ''bucket'',
      StatObject = (\<lambda>r. Inr (scenario_source bs, None)),
      NewReader = (\<lambda>r. Inr bs),
      UpdateObject = (\<lambda>r. Inr (Some (scenario_object 7 2))),
      SyncObject = (\<lambda>n ob tf. Inr (Some (scenario_object 8 1))),
      cache_Get = (\<lambda>k. None),
      cache_AddOrReplace =
        (\<lambda>k g mg bs. Inr \<lparr>co_Generation = g, co_MetaGeneration = mg,
                           CacheFile = scenario_temp_file bs\<rparr>),
      NewTempFile = (\<lambda>bs. Inr (scenario_temp_file bs)),
      NewBWHandler = (\<lambda>n b m. Inr \<lparr>bwh_written = [], bwh_mtime = 0, bwh_failed = False\<rparr>),
      Now = 4000,
      ParseInt = (\<lambda>s. None),
      time_Unix = (\<lambda>w. sint w),
      time_Parse = (\<lambda>s. if s = ''T1'' then Inr 1500 else Inl (OtherError ''parsing time'')),
      Format_RFC3339Nano = (\<lambda>t. ''T'')\<rparr>"

definition scenario_inode :: "byte list \<Rightarrow> bool \<Rightarrow> bool \<Rightarrow> bool \<Rightarrow> file_inode" where
  "scenario_inode bs cache localFile streaming =
     NewFileInode 1 scenario_name (Some (scenario_source bs)) scenario_attrs cache localFile
       (scenario_config streaming)"

text \<open>
  A local file under streaming writes, after its creation and a first write of two
  bytes.
\<close>

definition streaming_inode :: file_inode where
  "streaming_inode =
     run [(scenario_env [], OpCreateBufferedOrTempWriter), (scenario_env [], OpWrite [104, 105] 0)]
       (scenario_inode [] False True True)"

text \<open>
  The inode of the object with content \<open>AB\<close> after a write of one byte at offset 0,
  with or without the content cache.
\<close>

definition dirty_inode :: "bool \<Rightarrow> file_inode" where
  "dirty_inode cache =
     run [(scenario_env [65, 66], OpWrite [120] 0)] (scenario_inode [65, 66] cache False False)"

section \<open>The type cache (package inode, type_cache.go)\<close>

text \<open>
  Modelled from the spec: the enumeration \<open>Type\<close> (package inode) is not part of the
  sources at hand; the states of a name are "nothing is known", file, directory, both.
\<close>

datatype Type =
    UnknownType
  | SymlinkType
  | RegularFileType
  | ExplicitDirType
  | ImplicitDirType
  | NonexistentType

record cacheEntry =
  expiry :: time
  inodeType :: Type

text \<open>
  The cache \<open>lru.Cache\<close> (package lru) is not part of the sources at hand, and the
  specification names it only as a peer subsystem. Its operations are parameters of the
  type cache: \<open>LookUp\<close> returns the value found and the cache afterwards (a look-up
  refreshes the entry), \<open>lru_Insert\<close> and \<open>lru_Erase\<close> the cache afterwards.
\<close>

record 'c lru_Cache =
  NewCache :: "64 word \<Rightarrow> 'c"
  LookUp :: "string \<Rightarrow> 'c \<Rightarrow> cacheEntry option \<times> 'c"
  lru_Insert :: "string \<Rightarrow> cacheEntry \<Rightarrow> 'c \<Rightarrow> 'c"
  lru_Erase :: "string \<Rightarrow> 'c \<Rightarrow> 'c"

record 'c typeCache =
  ttl :: "64 word"
  entries :: 'c

definition MiBtoBytes :: "64 word" where
  "MiBtoBytes = 1024 * 1024"

definition newTypeCache :: "'c lru_Cache \<Rightarrow> 64 word \<Rightarrow> 64 word \<Rightarrow> err + 'c typeCache" where
  "newTypeCache L sizeInMb ttl' =
     (if sint sizeInMb \<le> 0
      then Inl (Panic ''unhandled scenario: type-cache-max-size-mb-per-dir <= 0'')
      else Inr \<lparr>ttl = ttl', entries = NewCache L (MiBtoBytes * sizeInMb)\<rparr>)"

text \<open>\<open>now.Add(tc.ttl)\<close> is \<open>now + sint (ttl tc)\<close>, \<open>entry.expiry.Before(now)\<close> is \<open><\<close>.\<close>

definition Insert ::
    "'c lru_Cache \<Rightarrow> time \<Rightarrow> string \<Rightarrow> Type \<Rightarrow> 'c typeCache \<Rightarrow> 'c typeCache" where
  "Insert L now name' it tc =
     (if ttl tc = 0 then tc
      else tc\<lparr>entries :=
                lru_Insert L name' \<lparr>expiry = now + sint (ttl tc), inodeType = it\<rparr> (entries tc)\<rparr>)"

definition Erase :: "'c lru_Cache \<Rightarrow> string \<Rightarrow> 'c typeCache \<Rightarrow> 'c typeCache" where
  "Erase L name' tc = tc\<lparr>entries := lru_Erase L name' (entries tc)\<rparr>"

definition Get ::
    "'c lru_Cache \<Rightarrow> time \<Rightarrow> string \<Rightarrow> 'c typeCache \<Rightarrow> Type \<times> 'c typeCache" where
  "Get L now name' tc =
     (case LookUp L name' (entries tc) of
        (None, c) \<Rightarrow> (UnknownType, tc\<lparr>entries := c\<rparr>)
      | (Some entry, c) \<Rightarrow>
          if expiry entry < now
          then (UnknownType, tc\<lparr>entries := lru_Erase L name' c\<rparr>)
          else (inodeType entry, tc\<lparr>entries := c\<rparr>))"

text \<open>Sequences of operations on a type cache.\<close>

datatype tc_op = TcInsert time string Type | TcErase string | TcGet time string

fun tc_step :: "'c lru_Cache \<Rightarrow> tc_op \<Rightarrow> 'c typeCache \<Rightarrow> 'c typeCache" where
  "tc_step L (TcInsert now n it) tc = Insert L now n it tc"
| "tc_step L (TcErase n) tc = Erase L n tc"
| "tc_step L (TcGet now n) tc = snd (Get L now n tc)"

fun tc_run :: "'c lru_Cache \<Rightarrow> tc_op list \<Rightarrow> 'c typeCache \<Rightarrow> 'c typeCache" where
  "tc_run L [] tc = tc"
| "tc_run L (x # xs) tc = tc_run L xs (tc_step L x tc)"

text \<open>
  A cache to run the type cache on: a list of entries, the one used last first, that
  never evicts.
\<close>

definition list_lru :: "((string \<times> cacheEntry) list) lru_Cache" where
  "list_lru =
     \<lparr>NewCache = (\<lambda>maxSize. []),
      LookUp = (\<lambda>k c. case map_of c k of
                         None \<Rightarrow> (None, c)
                       | Some v \<Rightarrow> (Some v, (k, v) # filter (\<lambda>p. fst p \<noteq> k) c)),
      lru_Insert = (\<lambda>k v c. (k, v) # filter (\<lambda>p. fst p \<noteq> k) c),
      lru_Erase = (\<lambda>k c. filter (\<lambda>p. fst p \<noteq> k) c)\<rparr>"

section \<open>Properties\<close>

lemmas scen = scenario_inode_def scenario_env_def scenario_temp_file_def scenario_object_def
  scenario_source_def scenario_config_def scenario_attrs_def scenario_name_def NewFileInode_def

lemmas ops = Write_def Truncate_def ensureContent_def openReader_def
  ensureBufferedWriteHandler_def CreateBufferedOrTempWriter_def bwh_Write_def bwh_SetMtime_def
  tf_WriteAt_def tf_Truncate_def tf_SetMtime_def HasContentEncodingGzip_def GcsObjectName_def

lemma streaming_inode_eq:
  "streaming_inode = (scenario_inode [] False True True)
      \<lparr>bwh := Some \<lparr>bwh_written = [104, 105], bwh_mtime = 4000, bwh_failed = False\<rparr>\<rparr>"
  by (simp add: streaming_inode_def scen ops)

lemmas clob = clobbered_def Compare_def SourceGeneration_def IsLocal_def GcsObjectName_def
  ConvertMinObjectAndExtendedObjectAttributesToObject_def ConvertMinObjectToObject_def

lemma dirty_inode_eq:
  "dirty_inode cache = (scenario_inode [65, 66] cache False False)
      \<lparr>content := Some \<lparr>tf_contents = [120, 66], tf_mtime = Some 3000, tf_clock = 3000,
                         tf_fault = None, tf_destroyed = False\<rparr>\<rparr>"
  by (simp add: dirty_inode_def scen ops ValidateGeneration_def)

lemma Compare_eq_0_iff:
  "Compare g h = 0 \<longleftrightarrow> gen_Object g = gen_Object h \<and> gen_Metadata g = gen_Metadata h"
  by (auto simp: Compare_def word_eq_iff_signed [where ?'a = int])

subsection \<open>Source generation and clobber detection\<close>

text \<open>
  C9. In every state of the inode, hence in every state that a run of public operations
  reaches, \<open>SourceGenerationIsAuthoritative\<close> holds if and only if neither the scratch
  content nor the buffered write handler is materialized.
\<close>

theorem SourceGenerationIsAuthoritative_iff:
  "SourceGenerationIsAuthoritative (run xs f) \<longleftrightarrow>
     content (run xs f) = None \<and> bwh (run xs f) = None"
  by (simp add: SourceGenerationIsAuthoritative_def)

text \<open>
  C6. \<open>clobbered\<close>: when the stat of the bucket fails with NotFound, the verdict is
  "clobbered" iff the inode is not local, and no error is returned; when the stat
  succeeds, the verdict is "clobbered" iff the generation pair of the object returned
  differs from the generation pair of the source record.
\<close>

theorem clobbered_verdict:
  "(StatObject E \<lparr>so_Name = GcsObjectName (name f), ForceFetchFromGcs = ff,
                 ReturnExtendedObjectAttributes = ie\<rparr> = Inl e \<and> As_NotFoundError e \<longrightarrow>
      clobbered E f ff ie = (None, \<not> IsLocal f, None)) \<and>
   (StatObject E \<lparr>so_Name = GcsObjectName (name f), ForceFetchFromGcs = ff,
                 ReturnExtendedObjectAttributes = ie\<rparr> = Inr (m, x) \<longrightarrow>
      snd (clobbered E f ff ie) =
        ((Generation m, MetaGeneration m) \<noteq> (Generation (src f), MetaGeneration (src f)), None))"
  by (auto simp: clobbered_def Let_def Compare_eq_0_iff SourceGeneration_def
      ConvertMinObjectToObject_def ConvertMinObjectAndExtendedObjectAttributesToObject_def)

text \<open>
  The theorem at work: NotFound for a non-local and for a local inode, a stat that
  returns generation (8, 1) and one that returns the source's generation (7, 1).
\<close>

theorem clobbered_verdict_witness:
  "clobbered ((scenario_env [65, 66])\<lparr>StatObject := (\<lambda>r. Inl (Wrapped ''gcs: '' NotFoundError))\<rparr>)
     (scenario_inode [65, 66] False False False) True True = (None, True, None) \<and>
   clobbered ((scenario_env [65, 66])\<lparr>StatObject := (\<lambda>r. Inl (Wrapped ''gcs: '' NotFoundError))\<rparr>)
     (scenario_inode [65, 66] False True False) True True = (None, False, None) \<and>
   snd (clobbered ((scenario_env [65, 66])\<lparr>StatObject := (\<lambda>r. Inr (scenario_source [65, 66]\<lparr>Generation := 8\<rparr>, None))\<rparr>)
     (scenario_inode [65, 66] False False False) False False) = (True, None) \<and>
   snd (clobbered (scenario_env [65, 66]) (scenario_inode [65, 66] False False False) False False) = (False, None)"
proof -
  let ?nf = "(scenario_env [65, 66])\<lparr>StatObject := (\<lambda>r. Inl (Wrapped ''gcs: '' NotFoundError))\<rparr>"
  let ?ch = "(scenario_env [65, 66])\<lparr>StatObject := (\<lambda>r. Inr (scenario_source [65, 66]\<lparr>Generation := 8\<rparr>, None))\<rparr>"
  have a: "clobbered ?nf (scenario_inode [65, 66] False False False) True True = (None, True, None)"
    using clobbered_verdict [of ?nf "scenario_inode [65, 66] False False False" True True
        "Wrapped ''gcs: '' NotFoundError"]
    by (simp add: scen IsLocal_def)
  have b: "clobbered ?nf (scenario_inode [65, 66] False True False) True True = (None, False, None)"
    using clobbered_verdict [of ?nf "scenario_inode [65, 66] False True False" True True
        "Wrapped ''gcs: '' NotFoundError"]
    by (simp add: scen IsLocal_def)
  have c: "snd (clobbered ?ch (scenario_inode [65, 66] False False False) False False) = (True, None)"
    using clobbered_verdict [of ?ch "scenario_inode [65, 66] False False False" False False _
        "scenario_source [65, 66]\<lparr>Generation := 8\<rparr>" None]
    by (simp add: scen)
  have d: "snd (clobbered (scenario_env [65, 66]) (scenario_inode [65, 66] False False False) False False)
             = (False, None)"
    using clobbered_verdict [of "scenario_env [65, 66]" "scenario_inode [65, 66] False False False" False False _
        "scenario_source [65, 66]" None]
    by (simp add: scen)
  from a b c d show ?thesis by simp
qed

subsection \<open>Sync of a streaming inode\<close>

text \<open>
  C1, as amended. A Sync of an inode in the Streaming state (buffered write handler
  materialized, no scratch) returns success without asking the bucket and leaves the
  inode as it is: the handler stays, the source record and the local flag are unchanged.
\<close>

theorem Sync_streaming_unchanged:
  assumes "bwh f = Some b" and "content f = None"
  shows "Sync E f = (None, f, None)"
  using assms by (simp add: Sync_def)

theorem Sync_streaming_unchanged_witness:
  "bwh streaming_inode \<noteq> None \<and> content streaming_inode = None \<and>
   Sync (scenario_env []) streaming_inode = (None, streaming_inode, None)"
  using Sync_streaming_unchanged [of streaming_inode
      "\<lparr>bwh_written = [104, 105], bwh_mtime = 4000, bwh_failed = False\<rparr>" "scenario_env []"]
  by (simp add: streaming_inode_eq scen)

text \<open>
  C1 as stated fails: after the Sync of the local streaming inode, which succeeds, the
  handler is still there and the inode is still local.
\<close>

theorem Sync_streaming_counterexample:
  "bwh streaming_inode \<noteq> None \<and> content streaming_inode = None \<and>
   fst (Sync (scenario_env []) streaming_inode) = None \<and>
   bwh (fst (snd (Sync (scenario_env []) streaming_inode))) \<noteq> None \<and>
   local (fst (snd (Sync (scenario_env []) streaming_inode))) \<and>
   src (fst (snd (Sync (scenario_env []) streaming_inode))) = src streaming_inode"
  by (simp add: streaming_inode_eq scen Sync_def)

subsection \<open>Scratch and handler together\<close>

text \<open>
  C3 fails on the code. The inode of an empty object under streaming writes: a Write
  materializes the handler, the Truncate that follows materializes the scratch, and both
  are there when Truncate has returned with success. In the other order the Truncate
  materializes the scratch and the Write that follows creates a handler beside it.
\<close>

theorem scratch_and_bwh_both_materialized:
  "content (run [(scenario_env [], OpWrite [104, 105] 0), (scenario_env [], OpTruncate 0)]
              (scenario_inode [] False False True)) \<noteq> None \<and>
   bwh (run [(scenario_env [], OpWrite [104, 105] 0), (scenario_env [], OpTruncate 0)]
              (scenario_inode [] False False True)) \<noteq> None \<and>
   fst (Truncate (scenario_env [])
          (run [(scenario_env [], OpWrite [104, 105] 0)] (scenario_inode [] False False True)) 0)
     = None \<and>
   content (run [(scenario_env [], OpTruncate 0), (scenario_env [], OpWrite [104, 105] 0)]
              (scenario_inode [] False False True)) \<noteq> None \<and>
   bwh (run [(scenario_env [], OpTruncate 0), (scenario_env [], OpWrite [104, 105] 0)]
              (scenario_inode [] False False True)) \<noteq> None \<and>
   fst (Write (scenario_env [])
          (run [(scenario_env [], OpTruncate 0)] (scenario_inode [] False False True))
          [104, 105] 0) = None"
  by (simp add: scen ops)

subsection \<open>The route of a Write\<close>

text \<open>
  C2, as amended. A Write is enqueued to the buffered write handler when the inode is
  Streaming already, and when it is Pristine, the size of its source is 0 and streaming
  writes are configured: a new handler, stamped with the time of the clock, is installed
  first, and if its creation fails the error is returned and nothing is written. With no
  handler, and a source of size other than 0 or streaming writes not configured, the
  write goes through \<open>ensureContent\<close> and to the scratch, whether the inode is local or
  not; no handler is created.
\<close>

theorem Write_routing:
  "(bwh f = Some b \<and> content f = None \<longrightarrow>
      Write E f data offset =
        (fst (bwh_Write data offset b), f\<lparr>bwh := Some (snd (bwh_Write data offset b))\<rparr>)) \<and>
   (bwh f = None \<and> content f = None \<and> Size (src f) = 0 \<and>
    ExperimentalEnableStreamingWrites (writeConfig f) \<and>
    NewBWHandler E (GcsObjectName (name f)) (BlockSizeMb (writeConfig f))
      (MaxBlocksPerFile (writeConfig f)) = Inr b0 \<longrightarrow>
      Write E f data offset =
        (fst (bwh_Write data offset (bwh_SetMtime (Now E) b0)),
         f\<lparr>bwh := Some (snd (bwh_Write data offset (bwh_SetMtime (Now E) b0)))\<rparr>)) \<and>
   (bwh f = None \<and> content f = None \<and> Size (src f) = 0 \<and>
    ExperimentalEnableStreamingWrites (writeConfig f) \<and>
    NewBWHandler E (GcsObjectName (name f)) (BlockSizeMb (writeConfig f))
      (MaxBlocksPerFile (writeConfig f)) = Inl e \<longrightarrow>
      Write E f data offset = (Some (Wrapped ''failed to create bufferedWriteHandler: '' e), f)) \<and>
   (bwh f = None \<and> (Size (src f) \<noteq> 0 \<or> \<not> ExperimentalEnableStreamingWrites (writeConfig f)) \<and>
    ensureContent E f = (Some e', f1) \<longrightarrow>
      Write E f data offset = (Some (Wrapped ''ensureContent: '' e'), f1)) \<and>
   (bwh f = None \<and> (Size (src f) \<noteq> 0 \<or> \<not> ExperimentalEnableStreamingWrites (writeConfig f)) \<and>
    ensureContent E f = (None, f2) \<and> content f2 = Some c \<longrightarrow>
      Write E f data offset =
        (fst (tf_WriteAt data offset c), f2\<lparr>content := Some (snd (tf_WriteAt data offset c))\<rparr>) \<and>
      bwh (snd (Write E f data offset)) = None)"
proof -
  have bwh_ec: "bwh (snd (ensureContent E f)) = bwh f"
    by (simp add: ensureContent_def Let_def split: option.splits sum.splits)
  show ?thesis
    using bwh_ec
    by (auto simp: Write_def ensureBufferedWriteHandler_def split: prod.splits option.splits)
qed

theorem Write_routing_witness:
  "Write (scenario_env []) streaming_inode [33] 2 =
     (None, streaming_inode
        \<lparr>bwh := Some \<lparr>bwh_written = [104, 105, 33], bwh_mtime = 4000, bwh_failed = False\<rparr>\<rparr>) \<and>
   Write (scenario_env []) (scenario_inode [] False False True) [104] 0 =
     (None, (scenario_inode [] False False True)
        \<lparr>bwh := Some \<lparr>bwh_written = [104], bwh_mtime = 4000, bwh_failed = False\<rparr>\<rparr>) \<and>
   Write ((scenario_env [])\<lparr>NewBWHandler := (\<lambda>n b m. Inl (OtherError ''no blocks''))\<rparr>)
       (scenario_inode [] False False True) [104] 0 =
     (Some (Wrapped ''failed to create bufferedWriteHandler: '' (OtherError ''no blocks'')),
      scenario_inode [] False False True) \<and>
   Write ((scenario_env [65, 66])\<lparr>NewReader := (\<lambda>r. Inl NotFoundError)\<rparr>)
       (scenario_inode [65, 66] False False True) [104] 0 =
     (Some (Wrapped ''ensureContent: '' (Wrapped ''openReader Error: '' (Wrapped ''NewReader: ''
        (FileClobberedError (Some (Wrapped ''NewReader: '' NotFoundError)))))),
      scenario_inode [65, 66] False False True) \<and>
   Write (scenario_env [65, 66]) (scenario_inode [65, 66] False False True) [104] 1 =
     (None, (scenario_inode [65, 66] False False True)
        \<lparr>content := Some \<lparr>tf_contents = [65, 104], tf_mtime = Some 3000, tf_clock = 3000,
                           tf_fault = None, tf_destroyed = False\<rparr>\<rparr>)"
proof -
  have a: "Write (scenario_env []) streaming_inode [33] 2 =
     (None, streaming_inode
        \<lparr>bwh := Some \<lparr>bwh_written = [104, 105, 33], bwh_mtime = 4000, bwh_failed = False\<rparr>\<rparr>)"
    using Write_routing [of streaming_inode "\<lparr>bwh_written = [104, 105], bwh_mtime = 4000, bwh_failed = False\<rparr>" "scenario_env []" "[33]" 2 "\<lparr>bwh_written = [], bwh_mtime = 0, bwh_failed = False\<rparr>" EOF EOF "scenario_inode [] False False True" "scenario_inode [] False False True" "scenario_temp_file [65, 66]"]
    by (simp add: streaming_inode_eq scen bwh_Write_def)
  have b: "Write (scenario_env []) (scenario_inode [] False False True) [104] 0 =
     (None, (scenario_inode [] False False True)
        \<lparr>bwh := Some \<lparr>bwh_written = [104], bwh_mtime = 4000, bwh_failed = False\<rparr>\<rparr>)"
    using Write_routing [of "scenario_inode [] False False True" "\<lparr>bwh_written = [104, 105], bwh_mtime = 4000, bwh_failed = False\<rparr>" "scenario_env []" "[104]" 0 "\<lparr>bwh_written = [], bwh_mtime = 0, bwh_failed = False\<rparr>" EOF EOF "scenario_inode [] False False True" "scenario_inode [] False False True" "scenario_temp_file [65, 66]"]
    by (simp add: scen bwh_Write_def bwh_SetMtime_def GcsObjectName_def)
  have c: "Write ((scenario_env [])\<lparr>NewBWHandler := (\<lambda>n b m. Inl (OtherError ''no blocks''))\<rparr>) (scenario_inode [] False False True) [104] 0 =
     (Some (Wrapped ''failed to create bufferedWriteHandler: '' (OtherError ''no blocks'')),
      scenario_inode [] False False True)"
    using Write_routing [of "scenario_inode [] False False True" "\<lparr>bwh_written = [104, 105], bwh_mtime = 4000, bwh_failed = False\<rparr>" "(scenario_env [])\<lparr>NewBWHandler := (\<lambda>n b m. Inl (OtherError ''no blocks''))\<rparr>" "[104]" 0 "\<lparr>bwh_written = [], bwh_mtime = 0, bwh_failed = False\<rparr>" "OtherError ''no blocks''" EOF "scenario_inode [] False False True" "scenario_inode [] False False True" "scenario_temp_file [65, 66]"]
    by (simp add: scen GcsObjectName_def)
  have d: "Write ((scenario_env [65, 66])\<lparr>NewReader := (\<lambda>r. Inl NotFoundError)\<rparr>) (scenario_inode [65, 66] False False True) [104] 0 =
     (Some (Wrapped ''ensureContent: '' (Wrapped ''openReader Error: '' (Wrapped ''NewReader: ''
        (FileClobberedError (Some (Wrapped ''NewReader: '' NotFoundError)))))),
      scenario_inode [65, 66] False False True)"
    using Write_routing [of "scenario_inode [65, 66] False False True" "\<lparr>bwh_written = [104, 105], bwh_mtime = 4000, bwh_failed = False\<rparr>" "(scenario_env [65, 66])\<lparr>NewReader := (\<lambda>r. Inl NotFoundError)\<rparr>" "[104]" 0 "\<lparr>bwh_written = [], bwh_mtime = 0, bwh_failed = False\<rparr>" EOF
        "Wrapped ''openReader Error: '' (Wrapped ''NewReader: ''
          (FileClobberedError (Some (Wrapped ''NewReader: '' NotFoundError))))"
        "scenario_inode [65, 66] False False True" "scenario_inode [] False False True" "scenario_temp_file [65, 66]"]
    by (simp add: scen ensureContent_def openReader_def HasContentEncodingGzip_def)
  have e: "Write (scenario_env [65, 66]) (scenario_inode [65, 66] False False True) [104] 1 =
     (None, (scenario_inode [65, 66] False False True)
        \<lparr>content := Some \<lparr>tf_contents = [65, 104], tf_mtime = Some 3000, tf_clock = 3000,
                           tf_fault = None, tf_destroyed = False\<rparr>\<rparr>)"
    using Write_routing [of "scenario_inode [65, 66] False False True" "\<lparr>bwh_written = [104, 105], bwh_mtime = 4000, bwh_failed = False\<rparr>" "scenario_env [65, 66]" "[104]" 1 "\<lparr>bwh_written = [], bwh_mtime = 0, bwh_failed = False\<rparr>" EOF EOF "scenario_inode [] False False True"
        "(scenario_inode [65, 66] False False True)\<lparr>content := Some (scenario_temp_file [65, 66])\<rparr>"
        "scenario_temp_file [65, 66]"]
    by (simp add: scen ensureContent_def openReader_def HasContentEncodingGzip_def tf_WriteAt_def)
  from a b c d e show ?thesis by simp
qed

text \<open>
  C2 as stated fails: the streaming inode is not Pristine, so that the specification
  sends its next write to the scratch; the code enqueues it to the handler and
  materializes no scratch.
\<close>

theorem Write_streaming_counterexample:
  "\<not> spec_write_streams streaming_inode \<and>
   Write (scenario_env []) streaming_inode [33] 2 =
     (None, streaming_inode
        \<lparr>bwh := Some \<lparr>bwh_written = [104, 105, 33], bwh_mtime = 4000, bwh_failed = False\<rparr>\<rparr>) \<and>
   content (snd (Write (scenario_env []) streaming_inode [33] 2)) = None"
  by (simp add: streaming_inode_eq spec_write_streams_def scen ops)

subsection \<open>Sync of a scratch inode\<close>

text \<open>
  C4, as amended. For every Sync call on an inode with a materialized scratch and the
  content cache disabled that returns success after \<open>SyncObject\<close> has produced a new
  object: the source record is replaced by the minimal record of that object, the scratch
  is destroyed and the inode no longer points to it, the local flag is cleared, and
  \<open>SourceGeneration\<close> is the generation pair of the new object.
\<close>

theorem Sync_scratch_success:
  assumes "content f = Some c" and "\<not> localFileCache f"
    and "fst (Sync E f) = None"
    and "SyncObject E (GcsObjectName (name f)) (fst (clobbered E f True True)) c = Inr (Some newObj)"
  shows "Sync E f =
           (None,
            f\<lparr>src := \<lparr>Name = Name newObj, Size = Size newObj, Generation = Generation newObj,
                      MetaGeneration = MetaGeneration newObj, Updated = Updated newObj,
                      Metadata = Metadata newObj, ContentEncoding = ContentEncoding newObj\<rparr>,
              local := False, content := None\<rparr>,
            Some (tf_Destroy c)) \<and>
         SourceGeneration (fst (snd (Sync E f))) =
           \<lparr>gen_Object = Generation newObj, gen_Metadata = MetaGeneration newObj\<rparr>"
proof -
  obtain latest isClobbered err0 where cl: "clobbered E f True True = (latest, isClobbered, err0)"
    by (cases "clobbered E f True True") auto
  have ok: "\<not> isClobbered \<and> err0 = None"
  proof (cases "isClobbered \<or> err0 \<noteq> None")
    case True
    with assms(1) cl have "fst (Sync E f) \<noteq> None"
      by (auto simp: Sync_def)
    with assms(3) show ?thesis by simp
  next
    case False
    then show ?thesis by simp
  qed
  from assms cl ok show ?thesis
    by (simp add: Sync_def ConvertObjToMinObject_def SourceGeneration_def)
qed

theorem Sync_scratch_success_witness:
  "Sync (scenario_env [65, 66]) (dirty_inode False) =
     (None,
      (scenario_inode [65, 66] False False False)
        \<lparr>src := \<lparr>Name = ''obj'', Size = 2, Generation = 8, MetaGeneration = 1, Updated = 2000,
                  Metadata = Map.empty, ContentEncoding = []\<rparr>\<rparr>,
      Some \<lparr>tf_contents = [120, 66], tf_mtime = Some 3000, tf_clock = 3000,
            tf_fault = None, tf_destroyed = True\<rparr>) \<and>
   SourceGeneration (fst (snd (Sync (scenario_env [65, 66]) (dirty_inode False)))) =
     \<lparr>gen_Object = 8, gen_Metadata = 1\<rparr>"
proof -
  have s: "fst (Sync (scenario_env [65, 66]) (dirty_inode False)) = None"
    by (simp add: Sync_def dirty_inode_eq scen clob)
  show ?thesis
    using Sync_scratch_success [of "dirty_inode False"
        "\<lparr>tf_contents = [120, 66], tf_mtime = Some 3000, tf_clock = 3000,
          tf_fault = None, tf_destroyed = False\<rparr>" "scenario_env [65, 66]" "scenario_object 8 1"] s
    by (simp add: dirty_inode_eq scen clob tf_Destroy_def)
qed

text \<open>
  C4 as stated fails with the content cache enabled: the stat finds no clobber,
  \<open>SyncObject\<close> produces the object of generation (8, 1), Sync returns success, and the
  inode is unchanged: it keeps the scratch and the source generation (7, 1).
\<close>

theorem Sync_cached_counterexample:
  "content (dirty_inode True) \<noteq> None \<and>
   fst (snd (clobbered (scenario_env [65, 66]) (dirty_inode True) True True)) = False \<and>
   SyncObject (scenario_env [65, 66]) (GcsObjectName (name (dirty_inode True)))
       (fst (clobbered (scenario_env [65, 66]) (dirty_inode True) True True))
       \<lparr>tf_contents = [120, 66], tf_mtime = Some 3000, tf_clock = 3000,
         tf_fault = None, tf_destroyed = False\<rparr> = Inr (Some (scenario_object 8 1)) \<and>
   Sync (scenario_env [65, 66]) (dirty_inode True) = (None, dirty_inode True, None) \<and>
   SourceGeneration (dirty_inode True) = \<lparr>gen_Object = 7, gen_Metadata = 1\<rparr>"
  by (simp add: Sync_def dirty_inode_eq scen clob)

text \<open>
  C5. Whenever the \<open>SyncObject\<close> call that Sync makes (the scratch is materialized, the
  stat has found no clobber and has not failed) fails with a Precondition error, Sync
  returns a \<open>FileClobberedError\<close> that wraps the failure, not the plain wrapped error,
  and the inode, its source record included, is unchanged.
\<close>

theorem Sync_precondition_is_clobbered:
  assumes "content f = Some c"
    and "snd (clobbered E f True True) = (False, None)"
    and "SyncObject E (GcsObjectName (name f)) (fst (clobbered E f True True)) c = Inl e"
    and "As_PreconditionError e"
  shows "Sync E f = (Some (FileClobberedError (Some (Wrapped ''SyncObject: '' e))), f, None) \<and>
         fst (Sync E f) \<noteq> Some (Wrapped ''SyncObject: '' e) \<and>
         src (fst (snd (Sync E f))) = src f"
proof -
  obtain latest where cl: "clobbered E f True True = (latest, False, None)"
    using assms(2) by (cases "clobbered E f True True") auto
  from assms cl show ?thesis
    by (simp add: Sync_def)
qed

theorem Sync_precondition_is_clobbered_witness:
  "Sync ((scenario_env [65, 66])
          \<lparr>SyncObject := (\<lambda>n ob tf. Inl (Wrapped ''gcs: '' PreconditionError))\<rparr>)
      (dirty_inode False) =
     (Some (FileClobberedError
        (Some (Wrapped ''SyncObject: '' (Wrapped ''gcs: '' PreconditionError)))),
      dirty_inode False, None)"
  using Sync_precondition_is_clobbered [of "dirty_inode False"
        "\<lparr>tf_contents = [120, 66], tf_mtime = Some 3000, tf_clock = 3000,
          tf_fault = None, tf_destroyed = False\<rparr>"
        "(scenario_env [65, 66])
          \<lparr>SyncObject := (\<lambda>n ob tf. Inl (Wrapped ''gcs: '' PreconditionError))\<rparr>"
        "Wrapped ''gcs: '' PreconditionError"]
  by (simp add: dirty_inode_eq scen clob)

subsection \<open>SetMtime on the bucket\<close>

text \<open>
  C7. For every SetMtime call that takes the \<open>UpdateObject\<close> path (no handler, no scratch
  or a scratch that is not dirty, inode not local): if the bucket answers NotFound or
  Precondition, SetMtime returns no error and the inode is unchanged; if the bucket
  returns an object, its minimal record becomes the source record.
\<close>

theorem SetMtime_update_object_path:
  assumes "bwh f = None" and "\<not> IsLocal f"
    and "content f = None \<or>
         (content f = Some c \<and> tf_Stat c = Inr sr \<and> sr_Mtime sr = None)"
  shows "(UpdateObject E
            \<lparr>uo_Name = Name (src f), uo_Generation = Generation (src f),
             MetaGenerationPrecondition = MetaGeneration (src f),
             uo_Metadata = [''gcsfuse_mtime'' \<mapsto> Format_RFC3339Nano E mtime]\<rparr> = Inl e \<and>
          (As_NotFoundError e \<or> As_PreconditionError e) \<longrightarrow>
            SetMtime E f mtime = (None, f)) \<and>
         (UpdateObject E
            \<lparr>uo_Name = Name (src f), uo_Generation = Generation (src f),
             MetaGenerationPrecondition = MetaGeneration (src f),
             uo_Metadata = [''gcsfuse_mtime'' \<mapsto> Format_RFC3339Nano E mtime]\<rparr> = Inr (Some ob) \<longrightarrow>
            SetMtime E f mtime =
              (None,
               f\<lparr>src := \<lparr>Name = Name ob, Size = Size ob, Generation = Generation ob,
                         MetaGeneration = MetaGeneration ob, Updated = Updated ob,
                         Metadata = Metadata ob, ContentEncoding = ContentEncoding ob\<rparr>\<rparr>))"
proof -
  have st: "(case content f of None \<Rightarrow> Inr zero_stat_result | Some c \<Rightarrow> tf_Stat c) = Inr sr'
            \<Longrightarrow> sr_Mtime sr' = None" for sr'
    using assms(3) by (auto simp: zero_stat_result_def)
  obtain sr' where sr': "(case content f of None \<Rightarrow> Inr zero_stat_result | Some c \<Rightarrow> tf_Stat c) = Inr sr'"
    using assms(3) by auto
  have m: "sr_Mtime sr' = None" using st sr' by blast
  show ?thesis
    using assms(1,2) sr' m
    by (simp add: SetMtime_def Let_def SourceGeneration_def FileMtimeMetadataKey_def
        ConvertObjToMinObject_def)
qed

theorem SetMtime_update_object_path_witness:
  "SetMtime ((scenario_env [65, 66])\<lparr>UpdateObject := (\<lambda>r. Inl (Wrapped ''gcs: '' NotFoundError))\<rparr>)
      (scenario_inode [65, 66] False False False) 5000 =
     (None, scenario_inode [65, 66] False False False) \<and>
   SetMtime ((scenario_env [65, 66])\<lparr>UpdateObject := (\<lambda>r. Inl PreconditionError)\<rparr>)
      ((scenario_inode [65, 66] False False False)
         \<lparr>content := Some (scenario_temp_file [65, 66])\<rparr>) 5000 =
     (None, (scenario_inode [65, 66] False False False)
         \<lparr>content := Some (scenario_temp_file [65, 66])\<rparr>) \<and>
   SetMtime (scenario_env [65, 66]) (scenario_inode [65, 66] False False False) 5000 =
     (None, (scenario_inode [65, 66] False False False)
        \<lparr>src := \<lparr>Name = ''obj'', Size = 2, Generation = 7, MetaGeneration = 2, Updated = 2000,
                  Metadata = Map.empty, ContentEncoding = []\<rparr>\<rparr>)"
proof -
  have a: "SetMtime ((scenario_env [65, 66])\<lparr>UpdateObject := (\<lambda>r. Inl (Wrapped ''gcs: '' NotFoundError))\<rparr>)
      (scenario_inode [65, 66] False False False) 5000 =
     (None, scenario_inode [65, 66] False False False)"
    using SetMtime_update_object_path [of "scenario_inode [65, 66] False False False"
        "scenario_temp_file [65, 66]" "\<lparr>sr_Size = 2, sr_Mtime = None\<rparr>"
        "(scenario_env [65, 66])\<lparr>UpdateObject := (\<lambda>r. Inl (Wrapped ''gcs: '' NotFoundError))\<rparr>"
        5000 "Wrapped ''gcs: '' NotFoundError" "scenario_object 7 2"]
    by (simp add: scen IsLocal_def)
  have b: "SetMtime ((scenario_env [65, 66])\<lparr>UpdateObject := (\<lambda>r. Inl PreconditionError)\<rparr>)
      ((scenario_inode [65, 66] False False False)
         \<lparr>content := Some (scenario_temp_file [65, 66])\<rparr>) 5000 =
     (None, (scenario_inode [65, 66] False False False)
         \<lparr>content := Some (scenario_temp_file [65, 66])\<rparr>)"
    using SetMtime_update_object_path [of "(scenario_inode [65, 66] False False False)
         \<lparr>content := Some (scenario_temp_file [65, 66])\<rparr>"
        "scenario_temp_file [65, 66]" "\<lparr>sr_Size = 2, sr_Mtime = None\<rparr>"
        "(scenario_env [65, 66])\<lparr>UpdateObject := (\<lambda>r. Inl PreconditionError)\<rparr>"
        5000 "PreconditionError" "scenario_object 7 2"]
    by (simp add: scen IsLocal_def tf_Stat_def)
  have c: "SetMtime (scenario_env [65, 66]) (scenario_inode [65, 66] False False False) 5000 =
     (None, (scenario_inode [65, 66] False False False)
        \<lparr>src := \<lparr>Name = ''obj'', Size = 2, Generation = 7, MetaGeneration = 2, Updated = 2000,
                  Metadata = Map.empty, ContentEncoding = []\<rparr>\<rparr>)"
    using SetMtime_update_object_path [of "scenario_inode [65, 66] False False False"
        "scenario_temp_file [65, 66]" "\<lparr>sr_Size = 2, sr_Mtime = None\<rparr>"
        "scenario_env [65, 66]" 5000 "PreconditionError" "scenario_object 7 2"]
    by (simp add: scen IsLocal_def)
  from a b c show ?thesis by simp
qed

subsection \<open>Attributes\<close>

text \<open>
  C8. For every successful Attributes call: without scratch and handler, size and mtime
  are those of the source record; with a scratch (and no handler) the size is the
  scratch's, and the mtime is the scratch's if it is dirty; with a handler, size and mtime
  are those of its \<open>WriteFileInfo\<close>; atime and ctime equal the mtime returned.
\<close>

theorem Attributes_precedence:
  assumes ok: "Attributes E f = Inr a"
  shows "(bwh f = Some b \<longrightarrow>
            attrs_Size a = TotalSize (bwh_WriteFileInfo b) \<and>
            Mtime a = wfi_Mtime (bwh_WriteFileInfo b)) \<and>
         (bwh f = None \<and> content f = Some c \<and> tf_Stat c = Inr sr \<longrightarrow>
            attrs_Size a = sr_Size sr \<and>
            Mtime a = (case sr_Mtime sr of Some t \<Rightarrow> t | None \<Rightarrow> source_mtime E (src f))) \<and>
         (bwh f = None \<and> content f = None \<longrightarrow>
            attrs_Size a = Size (src f) \<and> Mtime a = source_mtime E (src f)) \<and>
         Atime a = Mtime a \<and> Ctime a = Mtime a"
proof -
  define a0 where "a0 = (attrs f)\<lparr>Mtime := Updated (src f), attrs_Size := Size (src f)\<rparr>"
  define a1 where "a1 = (case Metadata (src f) ''goog-reserved-file-mtime'' of
                  None \<Rightarrow> a0
                | Some strTimestamp \<Rightarrow>
                    (case ParseInt E strTimestamp of
                       None \<Rightarrow> a0
                     | Some timestamp \<Rightarrow> a0\<lparr>Mtime := time_Unix E timestamp\<rparr>))"
  define r2 where "r2 = (case Metadata (src f) ''gcsfuse_mtime'' of
                 None \<Rightarrow> Inr a1
               | Some formatted \<Rightarrow>
                   (case time_Parse E formatted of
                      Inl e \<Rightarrow> Inl (Wrapped (''time.Parse('' @ formatted @ ''): '') e)
                    | Inr t \<Rightarrow> Inr (a1\<lparr>Mtime := t\<rparr>)))"
  define r3 where "r3 = (\<lambda>a2::inode_attributes. case content f of
                      None \<Rightarrow> Inr a2
                    | Some c \<Rightarrow>
                        (case tf_Stat c of
                           Inl e \<Rightarrow> Inl (Wrapped ''stat: '' e)
                         | Inr sr \<Rightarrow>
                             (let a = a2\<lparr>attrs_Size := sr_Size sr\<rparr>
                              in case sr_Mtime sr of
                                   None \<Rightarrow> Inr a
                                 | Some t \<Rightarrow> Inr (a\<lparr>Mtime := t\<rparr>))))"
  define a4 where "a4 = (\<lambda>a3::inode_attributes. case bwh f of
                               None \<Rightarrow> a3
                             | Some b \<Rightarrow>
                                 (let writeFileInfo = bwh_WriteFileInfo b
                                  in a3\<lparr>Mtime := wfi_Mtime writeFileInfo,
                                        attrs_Size := TotalSize writeFileInfo\<rparr>))"
  have unf: "Attributes E f =
     (case r2 of Inl e \<Rightarrow> Inl e
      | Inr a2 \<Rightarrow> (case r3 a2 of Inl e \<Rightarrow> Inl e
         | Inr a3 \<Rightarrow> (case clobbered E f False False of
                        (_, _, Some e) \<Rightarrow> Inl (Wrapped ''clobbered: '' e)
                      | (_, clob, None) \<Rightarrow>
                          Inr ((a4 a3)\<lparr>Atime := Mtime (a4 a3), Ctime := Mtime (a4 a3),
                                Nlink := (if clob \<or> (IsLocal f \<and> IsUnlinked f)
                                              then 0 else 1)\<rparr>))))"
    unfolding Attributes_def Let_def a0_def a1_def r2_def r3_def a4_def by (rule refl)
  from ok unf obtain a2 where a2: "r2 = Inr a2"
    by (cases r2) auto
  from ok unf a2 obtain a3 where a3: "r3 a2 = Inr a3"
    by (cases "r3 a2") auto
  from ok unf a2 a3 obtain clob where
    a: "a = (a4 a3)\<lparr>Atime := Mtime (a4 a3), Ctime := Mtime (a4 a3),
                    Nlink := (if clob \<or> (IsLocal f \<and> IsUnlinked f) then 0 else 1)\<rparr>"
    by (auto split: prod.splits option.splits)
  have m2: "Mtime a2 = source_mtime E (src f)" and s2: "attrs_Size a2 = Size (src f)"
    using a2
    by (auto simp: r2_def a1_def a0_def source_mtime_def split: option.splits sum.splits)
  have c1: "bwh f = Some b \<Longrightarrow> attrs_Size a = TotalSize (bwh_WriteFileInfo b) \<and>
            Mtime a = wfi_Mtime (bwh_WriteFileInfo b)"
    by (simp add: a a4_def Let_def)
  have c2: "bwh f = None \<and> content f = Some c \<and> tf_Stat c = Inr sr \<Longrightarrow>
            attrs_Size a = sr_Size sr \<and>
            Mtime a = (case sr_Mtime sr of Some t \<Rightarrow> t | None \<Rightarrow> source_mtime E (src f))"
    using a3 m2 by (auto simp: a a4_def r3_def Let_def split: option.splits)
  have c3: "bwh f = None \<and> content f = None \<Longrightarrow>
            attrs_Size a = Size (src f) \<and> Mtime a = source_mtime E (src f)"
    using a3 m2 s2 by (auto simp: a a4_def r3_def)
  have c4: "Atime a = Mtime a \<and> Ctime a = Mtime a"
    by (simp add: a)
  from c1 c2 c3 c4 show ?thesis by blast
qed

theorem Attributes_precedence_witness:
  "Attributes (scenario_env []) streaming_inode =
     Inr \<lparr>attrs_Size = 2, Nlink = 1, Mode = 420, Atime = 4000, Mtime = 4000, Ctime = 4000,
          Crtime = 0, Uid = 0, Gid = 0\<rparr> \<and>
   Attributes (scenario_env [65, 66])
      ((dirty_inode False)
         \<lparr>src := (scenario_source [65, 66])\<lparr>Metadata := [''gcsfuse_mtime'' \<mapsto> ''T1'']\<rparr>\<rparr>) =
     Inr \<lparr>attrs_Size = 2, Nlink = 1, Mode = 420, Atime = 3000, Mtime = 3000, Ctime = 3000,
          Crtime = 0, Uid = 0, Gid = 0\<rparr> \<and>
   Attributes (scenario_env [65, 66])
      ((scenario_inode [65, 66] False False False)
         \<lparr>src := (scenario_source [65, 66])\<lparr>Metadata := [''gcsfuse_mtime'' \<mapsto> ''T1'']\<rparr>\<rparr>) =
     Inr \<lparr>attrs_Size = 2, Nlink = 1, Mode = 420, Atime = 1500, Mtime = 1500, Ctime = 1500,
          Crtime = 0, Uid = 0, Gid = 0\<rparr> \<and>
   source_mtime (scenario_env [65, 66])
     ((scenario_source [65, 66])\<lparr>Metadata := [''gcsfuse_mtime'' \<mapsto> ''T1'']\<rparr>) = 1500"
proof -
  let ?a1 = "\<lparr>attrs_Size = 2, Nlink = 1, Mode = 420, Atime = 4000, Mtime = 4000, Ctime = 4000,
          Crtime = 0, Uid = 0, Gid = 0\<rparr>"
  let ?a2 = "\<lparr>attrs_Size = 2, Nlink = 1, Mode = 420, Atime = 3000, Mtime = 3000, Ctime = 3000,
          Crtime = 0, Uid = 0, Gid = 0\<rparr>"
  let ?a3 = "\<lparr>attrs_Size = 2, Nlink = 1, Mode = 420, Atime = 1500, Mtime = 1500, Ctime = 1500,
          Crtime = 0, Uid = 0, Gid = 0\<rparr>"
  let ?m = "(scenario_source [65, 66])\<lparr>Metadata := [''gcsfuse_mtime'' \<mapsto> ''T1'']\<rparr>"
  have a: "Attributes (scenario_env []) streaming_inode = Inr ?a1"
    by (simp add: Attributes_def streaming_inode_eq scen clob bwh_WriteFileInfo_def IsUnlinked_def)
  have b: "Attributes (scenario_env [65, 66]) ((dirty_inode False)\<lparr>src := ?m\<rparr>) = Inr ?a2"
    by (simp add: Attributes_def dirty_inode_eq scen clob tf_Stat_def IsUnlinked_def)
  have c: "Attributes (scenario_env [65, 66])
             ((scenario_inode [65, 66] False False False)\<lparr>src := ?m\<rparr>) = Inr ?a3"
    by (simp add: Attributes_def scen clob IsUnlinked_def)
  have d: "source_mtime (scenario_env [65, 66]) ?m = 1500"
    by (simp add: source_mtime_def scen)
  note t1 = Attributes_precedence [OF a, of
      "\<lparr>bwh_written = [104, 105], bwh_mtime = 4000, bwh_failed = False\<rparr>"
      "scenario_temp_file []" "\<lparr>sr_Size = 2, sr_Mtime = None\<rparr>"]
  note t2 = Attributes_precedence [OF b, of
      "\<lparr>bwh_written = [104, 105], bwh_mtime = 4000, bwh_failed = False\<rparr>"
      "\<lparr>tf_contents = [120, 66], tf_mtime = Some 3000, tf_clock = 3000,
        tf_fault = None, tf_destroyed = False\<rparr>" "\<lparr>sr_Size = 2, sr_Mtime = Some 3000\<rparr>"]
  note t3 = Attributes_precedence [OF c, of
      "\<lparr>bwh_written = [104, 105], bwh_mtime = 4000, bwh_failed = False\<rparr>"
      "scenario_temp_file []" "\<lparr>sr_Size = 2, sr_Mtime = None\<rparr>"]
  from a b c d t1 t2 t3 show ?thesis by simp
qed

subsection \<open>The type cache\<close>

lemma tc_run_disabled:
  assumes "\<forall>k. LookUp L k c0 = (None, c0)" and "\<forall>k. lru_Erase L k c0 = c0"
  shows "tc_run L xs \<lparr>ttl = 0, entries = c0\<rparr> = \<lparr>ttl = 0, entries = c0\<rparr>"
proof (induction xs)
  case Nil
  show ?case by simp
next
  case (Cons x xs)
  have "tc_step L x \<lparr>ttl = 0, entries = c0\<rparr> = \<lparr>ttl = 0, entries = c0\<rparr>"
    using assms by (cases x) (simp_all add: Insert_def Erase_def Get_def)
  with Cons show ?case by simp
qed

text \<open>
  C10. With a ttl of 0, Insert stores nothing; on a cache created with ttl 0, whose new
  \<open>lru.Cache\<close> finds nothing and stays as it is under an erasure, Get returns
  \<open>UnknownType\<close> for every name and time, after any sequence of operations. In general
  Insert stores the type with the expiry "insert time plus ttl"; Get returns
  \<open>UnknownType\<close> when the look-up finds nothing; when it finds an entry, Get returns its
  type if the expiry is not before now, and otherwise erases the entry and returns
  \<open>UnknownType\<close>. So, on a cache that finds what has just been inserted, a Get after an
  Insert returns the inserted type iff insert time plus ttl is not before now.
\<close>

theorem typeCache_Get_expiry:
  "(ttl tc = 0 \<longrightarrow> Insert L t n it tc = tc) \<and>
   ((\<forall>k m. LookUp L k (NewCache L m) = (None, NewCache L m)) \<and>
    (\<forall>k m. lru_Erase L k (NewCache L m) = NewCache L m) \<and>
    newTypeCache L sizeInMb 0 = Inr tc0 \<longrightarrow>
      Get L now n (tc_run L xs tc0) = (UnknownType, tc0)) \<and>
   (ttl tc \<noteq> 0 \<longrightarrow>
      entries (Insert L t n it tc) =
        lru_Insert L n \<lparr>expiry = t + sint (ttl tc), inodeType = it\<rparr> (entries tc)) \<and>
   (LookUp L n (entries tc) = (None, c) \<longrightarrow> Get L now n tc = (UnknownType, tc\<lparr>entries := c\<rparr>)) \<and>
   (LookUp L n (entries tc) = (Some en, c) \<longrightarrow>
      Get L now n tc =
        (if expiry en < now then (UnknownType, tc\<lparr>entries := lru_Erase L n c\<rparr>)
         else (inodeType en, tc\<lparr>entries := c\<rparr>))) \<and>
   (ttl tc \<noteq> 0 \<and>
    (\<forall>en c. fst (LookUp L n (lru_Insert L n en c)) = Some en) \<longrightarrow>
      fst (Get L now n (Insert L t n it tc)) =
        (if t + sint (ttl tc) < now then UnknownType else it))"
proof -
  have a: "ttl tc = 0 \<longrightarrow> Insert L t n it tc = tc"
    by (simp add: Insert_def)
  have b: "Get L now n (tc_run L xs tc0) = (UnknownType, tc0)"
    if l: "\<forall>k m. LookUp L k (NewCache L m) = (None, NewCache L m)"
      and e: "\<forall>k m. lru_Erase L k (NewCache L m) = NewCache L m"
      and n: "newTypeCache L sizeInMb 0 = Inr tc0"
  proof -
    from n have tc0: "tc0 = \<lparr>ttl = 0, entries = NewCache L (MiBtoBytes * sizeInMb)\<rparr>"
      by (auto simp: newTypeCache_def split: if_splits)
    have "tc_run L xs tc0 = tc0"
      unfolding tc0 using l e by (intro tc_run_disabled) simp_all
    then show ?thesis using l by (simp add: Get_def tc0)
  qed
  have c: "ttl tc \<noteq> 0 \<longrightarrow>
      entries (Insert L t n it tc) =
        lru_Insert L n \<lparr>expiry = t + sint (ttl tc), inodeType = it\<rparr> (entries tc)"
    by (simp add: Insert_def)
  have d: "LookUp L n (entries tc) = (None, c) \<longrightarrow> Get L now n tc = (UnknownType, tc\<lparr>entries := c\<rparr>)"
    by (simp add: Get_def)
  have e: "LookUp L n (entries tc) = (Some en, c) \<longrightarrow>
      Get L now n tc =
        (if expiry en < now then (UnknownType, tc\<lparr>entries := lru_Erase L n c\<rparr>)
         else (inodeType en, tc\<lparr>entries := c\<rparr>))"
    by (simp add: Get_def)
  have f: "fst (Get L now n (Insert L t n it tc)) =
        (if t + sint (ttl tc) < now then UnknownType else it)"
    if nz: "ttl tc \<noteq> 0" and law: "\<forall>en c. fst (LookUp L n (lru_Insert L n en c)) = Some en"
  proof -
    let ?en = "\<lparr>expiry = t + sint (ttl tc), inodeType = it\<rparr>"
    obtain c' where "LookUp L n (lru_Insert L n ?en (entries tc)) = (Some ?en, c')"
      using law by (metis prod.collapse)
    with nz show ?thesis by (simp add: Get_def Insert_def)
  qed
  from a b c d e f show ?thesis by blast
qed

theorem typeCache_Get_expiry_witness:
  "Insert list_lru 5 ''a'' RegularFileType \<lparr>ttl = 0, entries = []\<rparr> = \<lparr>ttl = 0, entries = []\<rparr> \<and>
   newTypeCache list_lru 4 0 = Inr \<lparr>ttl = 0, entries = []\<rparr> \<and>
   Get list_lru 7 ''a''
     (tc_run list_lru [TcInsert 5 ''a'' RegularFileType, TcGet 6 ''a'', TcErase ''b'']
        \<lparr>ttl = 0, entries = []\<rparr>) = (UnknownType, \<lparr>ttl = 0, entries = []\<rparr>) \<and>
   entries (Insert list_lru 5 ''a'' RegularFileType \<lparr>ttl = 10, entries = []\<rparr>) =
     [(''a'', \<lparr>expiry = 15, inodeType = RegularFileType\<rparr>)] \<and>
   Get list_lru 7 ''b'' \<lparr>ttl = 10, entries = [(''a'', \<lparr>expiry = 15, inodeType = RegularFileType\<rparr>)]\<rparr> =
     (UnknownType, \<lparr>ttl = 10, entries = [(''a'', \<lparr>expiry = 15, inodeType = RegularFileType\<rparr>)]\<rparr>) \<and>
   Get list_lru 15 ''a'' \<lparr>ttl = 10, entries = [(''a'', \<lparr>expiry = 15, inodeType = RegularFileType\<rparr>)]\<rparr> =
     (RegularFileType, \<lparr>ttl = 10, entries = [(''a'', \<lparr>expiry = 15, inodeType = RegularFileType\<rparr>)]\<rparr>) \<and>
   Get list_lru 16 ''a'' \<lparr>ttl = 10, entries = [(''a'', \<lparr>expiry = 15, inodeType = RegularFileType\<rparr>)]\<rparr> =
     (UnknownType, \<lparr>ttl = 10, entries = []\<rparr>) \<and>
   fst (Get list_lru 15 ''a'' (Insert list_lru 5 ''a'' RegularFileType \<lparr>ttl = 10, entries = []\<rparr>)) =
     RegularFileType \<and>
   fst (Get list_lru 16 ''a'' (Insert list_lru 5 ''a'' RegularFileType \<lparr>ttl = 10, entries = []\<rparr>)) =
     UnknownType"
proof -
  let ?e = "\<lparr>expiry = 15, inodeType = RegularFileType\<rparr>"
  have n: "newTypeCache list_lru 4 0 = Inr \<lparr>ttl = 0, entries = []\<rparr>"
    by (simp add: newTypeCache_def list_lru_def)
  have l1: "\<forall>k m. LookUp list_lru k (NewCache list_lru m) = (None, NewCache list_lru m)"
    by (simp add: list_lru_def)
  have l2: "\<forall>k m. lru_Erase list_lru k (NewCache list_lru m) = NewCache list_lru m"
    by (simp add: list_lru_def)
  have l3: "\<forall>en c. fst (LookUp list_lru ''a'' (lru_Insert list_lru ''a'' en c)) = Some en"
    by (simp add: list_lru_def)
  note t0 = typeCache_Get_expiry [where L = list_lru and tc = "\<lparr>ttl = 0, entries = []\<rparr>"
      and t = 5 and n = "''a''" and it = RegularFileType and sizeInMb = 4
      and ?tc0.0 = "\<lparr>ttl = 0, entries = []\<rparr>" and now = 7
      and xs = "[TcInsert 5 ''a'' RegularFileType, TcGet 6 ''a'', TcErase ''b'']"
      and c = "[]" and en = "\<lparr>expiry = 15, inodeType = RegularFileType\<rparr>"]
  note t1 = typeCache_Get_expiry [where L = list_lru and tc = "\<lparr>ttl = 10, entries = []\<rparr>"
      and t = 5 and n = "''a''" and it = RegularFileType and sizeInMb = 4
      and ?tc0.0 = "\<lparr>ttl = 0, entries = []\<rparr>" and now = 15
      and xs = "[]" and c = "[]" and en = "\<lparr>expiry = 15, inodeType = RegularFileType\<rparr>"]
  note t2 = typeCache_Get_expiry [where L = list_lru and tc = "\<lparr>ttl = 10, entries = []\<rparr>"
      and t = 5 and n = "''a''" and it = RegularFileType and sizeInMb = 4
      and ?tc0.0 = "\<lparr>ttl = 0, entries = []\<rparr>" and now = 16
      and xs = "[]" and c = "[]" and en = "\<lparr>expiry = 15, inodeType = RegularFileType\<rparr>"]
  note t3 = typeCache_Get_expiry [where L = list_lru
      and tc = "\<lparr>ttl = 10, entries = [(''a'', \<lparr>expiry = 15, inodeType = RegularFileType\<rparr>)]\<rparr>"
      and t = 5 and n = "''b''" and it = RegularFileType and sizeInMb = 4
      and ?tc0.0 = "\<lparr>ttl = 0, entries = []\<rparr>" and now = 7
      and xs = "[]" and c = "[(''a'', \<lparr>expiry = 15, inodeType = RegularFileType\<rparr>)]"
      and en = "\<lparr>expiry = 15, inodeType = RegularFileType\<rparr>"]
  note t4 = typeCache_Get_expiry [where L = list_lru
      and tc = "\<lparr>ttl = 10, entries = [(''a'', \<lparr>expiry = 15, inodeType = RegularFileType\<rparr>)]\<rparr>"
      and t = 5 and n = "''a''" and it = RegularFileType and sizeInMb = 4
      and ?tc0.0 = "\<lparr>ttl = 0, entries = []\<rparr>" and now = 15
      and xs = "[]" and c = "[(''a'', \<lparr>expiry = 15, inodeType = RegularFileType\<rparr>)]"
      and en = "\<lparr>expiry = 15, inodeType = RegularFileType\<rparr>"]
  note t5 = typeCache_Get_expiry [where L = list_lru
      and tc = "\<lparr>ttl = 10, entries = [(''a'', \<lparr>expiry = 15, inodeType = RegularFileType\<rparr>)]\<rparr>"
      and t = 5 and n = "''a''" and it = RegularFileType and sizeInMb = 4
      and ?tc0.0 = "\<lparr>ttl = 0, entries = []\<rparr>" and now = 16
      and xs = "[]" and c = "[(''a'', \<lparr>expiry = 15, inodeType = RegularFileType\<rparr>)]"
      and en = "\<lparr>expiry = 15, inodeType = RegularFileType\<rparr>"]
  have a: "Insert list_lru 5 ''a'' RegularFileType \<lparr>ttl = 0, entries = []\<rparr> = \<lparr>ttl = 0, entries = []\<rparr>"
    using t0 by simp
  have b: "Get list_lru 7 ''a''
     (tc_run list_lru [TcInsert 5 ''a'' RegularFileType, TcGet 6 ''a'', TcErase ''b'']
        \<lparr>ttl = 0, entries = []\<rparr>) = (UnknownType, \<lparr>ttl = 0, entries = []\<rparr>)"
    using t0 n l1 l2 by blast
  have c: "entries (Insert list_lru 5 ''a'' RegularFileType \<lparr>ttl = 10, entries = []\<rparr>) =
     [(''a'', ?e)]"
    using t1 by (simp add: list_lru_def)
  have d: "Get list_lru 7 ''b'' \<lparr>ttl = 10, entries = [(''a'', ?e)]\<rparr> =
     (UnknownType, \<lparr>ttl = 10, entries = [(''a'', ?e)]\<rparr>)"
    using t3 by (simp add: list_lru_def)
  have e: "Get list_lru 15 ''a'' \<lparr>ttl = 10, entries = [(''a'', ?e)]\<rparr> =
     (RegularFileType, \<lparr>ttl = 10, entries = [(''a'', ?e)]\<rparr>)"
    using t4 by (simp add: list_lru_def)
  have f: "Get list_lru 16 ''a'' \<lparr>ttl = 10, entries = [(''a'', ?e)]\<rparr> =
     (UnknownType, \<lparr>ttl = 10, entries = []\<rparr>)"
    using t5 by (simp add: list_lru_def)
  have g: "fst (Get list_lru 15 ''a'' (Insert list_lru 5 ''a'' RegularFileType \<lparr>ttl = 10, entries = []\<rparr>)) =
     RegularFileType"
    using t1 l3 by simp
  have h: "fst (Get list_lru 16 ''a'' (Insert list_lru 5 ''a'' RegularFileType \<lparr>ttl = 10, entries = []\<rparr>)) =
     UnknownType"
    using t2 l3 by simp
  from n a b c d e f g h show ?thesis by simp
qed

end
